theory Spec2Isabelle
  imports Main "HOL-Library.Word"
begin

section \<open>Herder: data model\<close>

text \<open>
  A shallow embedding of \<^verbatim>\<open>src/herder/Herder.cpp\<close>. Machine integers are words
  of the width the source declares; every member function of \<^verbatim>\<open>Herder\<close> takes the
  collaborators it reads (configuration, clock, codec, crypto, FBA base class, ledger)
  as a record and the Herder object as an explicit state. Calls into collaborators and
  invocations of the \<^verbatim>\<open>std::function\<close> callbacks are recorded, in order, as a
  list of events.
\<close>

type_synonym uint256 = "256 word"
type_synonym uint64 = "64 word"
type_synonym uint32 = "32 word"
type_synonym Hash = uint256
type_synonym Signature = "512 word"

text \<open>An opaque XDR value: the bytes as they travel.\<close>
type_synonym Value = "8 word list"

text \<open>A \<^verbatim>\<open>std::function<void(bool)>\<close> handed in by the FBA engine, by identity.\<close>
type_synonym callback = nat

text \<open>A \<^verbatim>\<open>VirtualClock::time_point\<close>, as a count of nanoseconds.\<close>
type_synonym time_point = int

record StellarBallotValue =
  txSetHash :: Hash
  closeTime :: uint64
  baseFee :: uint32

text \<open>The field \<^verbatim>\<open>value\<close> of the source is \<open>ballotValue\<close> here.\<close>
record StellarBallot =
  nodeID :: uint256
  signature :: Signature
  ballotValue :: StellarBallotValue

text \<open>The field \<^verbatim>\<open>value\<close> of the source is \<open>opaqueValue\<close> here.\<close>
record FBABallot =
  counter :: uint32
  opaqueValue :: Value

record TransactionFrame =
  getFullHash :: Hash
  getSourceID :: uint256

record TxSetFrame =
  mTransactions :: "TransactionFrame list"
  mPreviousLedgerHash :: Hash

record LedgerHeader =
  ledgerSeq :: uint64
  hash :: Hash
  lh_closeTime :: uint64

record FBAStatement =
  slotIndex :: uint64
  pledges :: Value

record FBAEnvelope =
  env_nodeID :: uint256
  statement :: FBAStatement

datatype AppState = BOOTING_STATE | CONNECTING_STATE | CATCHING_UP_STATE | SYNCED_STATE

datatype error_code = success | operation_aborted

datatype error = AssertionFailed | UndefinedBehaviour

text \<open>
  The compile-time constants of \<^verbatim>\<open>Herder.h\<close> (C \<^verbatim>\<open>int\<close> macros); the header is
  not among the sources, so their values are parameters.
\<close>
record Constants =
  MAX_TIME_SLIP_SECONDS :: int
  MAX_FBA_TIMEOUT_SECONDS :: int
  LEDGER_VALIDITY_BRACKET :: int
  NODE_EXPIRATION_SECONDS :: int
  EXP_LEDGER_TIMESPAN_SECONDS :: int

text \<open>
  The codec and the crypto primitives, which live outside \<^verbatim>\<open>Herder.cpp\<close>:
  \<open>xdr_from_opaque\<close> is \<^verbatim>\<open>xdr::xdr_from_opaque\<close> into a \<^verbatim>\<open>StellarBallot\<close>
  (\<open>None\<close> when it throws, and then \<open>xdr_partial\<close> is what the interrupted decoding
  left in its target); \<open>verifySig\<close> is \<^verbatim>\<open>PublicKey::verifySig\<close> on the
  serialised ballot value; \<open>roundHash s c n\<close> is the SHA-256 digest of
  \<^verbatim>\<open>xdr_to_msg(s) || xdr_to_msg(c) || xdr_to_msg(n)\<close>, a 32-byte array whose
  \<^verbatim>\<open><\<close> is the order of the big-endian number.
\<close>
record Crypto =
  xdr_from_opaque :: "Value \<Rightarrow> StellarBallot option"
  xdr_partial :: "Value \<Rightarrow> StellarBallot"
  verifySig :: "uint256 \<Rightarrow> Signature \<Rightarrow> StellarBallotValue \<Rightarrow> bool"
  roundHash :: "uint64 \<Rightarrow> uint32 \<Rightarrow> uint256 \<Rightarrow> uint256"

text \<open>
  What the Herder reads from the application, the FBA base class and the ledger at the
  time of a call.
\<close>
record Application =
  constants :: Constants
  crypto :: Crypto
  DESIRED_BASE_FEE :: uint32
  clock_now :: time_point
  pointToTimeT :: "time_point \<Rightarrow> uint64"
  getState :: AppState
  getLocalNodeID :: uint256
  secretKeyIsZero :: bool
  validators :: "uint256 list"
  isVBlocking :: "uint256 list \<Rightarrow> bool"
  tx_checkValid :: "TransactionFrame \<Rightarrow> bool"
  getBalance :: "TransactionFrame \<Rightarrow> int"
  getTxFee :: int
  txSet_checkValid :: "TxSetFrame \<Rightarrow> bool"
  getContentsHash :: "TxSetFrame \<Rightarrow> Hash"

section \<open>Events, timers and the Herder object\<close>

text \<open>
  What a call does to the outside, in the order it does it: the FBA engine's callback
  \<^verbatim>\<open>cb(b)\<close>, \<^verbatim>\<open>FBA::receiveEnvelope\<close>, the overlay's \<^verbatim>\<open>broadcastMessage\<close> of a
  transaction, the ledger's \<^verbatim>\<open>externalizeValue\<close>, \<^verbatim>\<open>FBA::purgeNode\<close>,
  \<^verbatim>\<open>FBA::purgeSlots\<close>, the fetcher's \<^verbatim>\<open>stopFetchingAll\<close> and its request to the
  network, and a line of the error log.
\<close>
datatype event =
    Callback callback bool
  | ReceiveEnvelope FBAEnvelope callback
  | BroadcastTransaction TransactionFrame
  | ExternalizeValue TxSetFrame
  | PurgeNode uint256
  | PurgeSlots uint64
  | StopFetchingAll nat
  | AskNetwork Hash
  | LogError

text \<open>The transactions handed to the overlay's \<^verbatim>\<open>broadcastMessage\<close> in a run, in order.\<close>
definition broadcasts :: "event list \<Rightarrow> TransactionFrame list" where
  "broadcasts evs = concat (map (\<lambda>e. case e of BroadcastTransaction tx \<Rightarrow> [tx] | _ \<Rightarrow> []) evs)"

text \<open>
  A \<^verbatim>\<open>VirtualTimer\<close> that has been armed: its delay in milliseconds and the handler
  given to \<^verbatim>\<open>async_wait\<close>, a closure from the error code to what it does.
\<close>
record VirtualTimer =
  expires_from_now :: int
  handler :: "error_code \<Rightarrow> event list"

text \<open>
  The closure \<^verbatim>\<open>validate\<close> of \<^verbatim>\<open>validateValue\<close>, parked until its transaction set
  arrives: the variables it captures.
\<close>
record ValidateClosure =
  vc_cb :: callback
  vc_b :: StellarBallot
  vc_slotIndex :: uint64
  vc_nodeID :: uint256

text \<open>
  Modelled from the spec: \<^verbatim>\<open>TxSetFetcher\<close> is missing. A fetcher holds the resident
  items by hash; \<open>fetchItem\<close> returns the cached item if resident and, if absent and
  \<open>askNetwork\<close>, issues a network request; \<open>clear\<close> empties it.
\<close>
type_synonym TxSetFetcher = "(Hash \<times> TxSetFrame) list"

definition fetchItem :: "TxSetFetcher \<Rightarrow> Hash \<Rightarrow> bool \<Rightarrow> TxSetFrame option \<times> event list" where
  "fetchItem f h askNetwork =
     (case map_of f h of
        Some item \<Rightarrow> (Some item, [])
      | None \<Rightarrow> (None, if askNetwork then [AskNetwork h] else []))"

record Herder =
  mReceivedTransactions :: "TransactionFrame list list"
  mTxSetFetcher :: "TxSetFetcher list"
  mCurrentTxSetFetcher :: nat
  mTxSetFetches :: "Hash \<Rightarrow> ValidateClosure list"
  mFutureEnvelopes :: "uint64 \<Rightarrow> (FBAEnvelope \<times> callback) list"
  mBallotValidationTimers :: "(FBABallot \<times> (uint256 \<times> VirtualTimer list) list) list"
  mNodeLastAccess :: "(uint256 \<times> time_point) list"
  mLedgersToWaitToParticipate :: int
  mLastClosedLedger :: LedgerHeader
  mLastTrigger :: time_point
  mTriggerTimer :: "int option"
  mBumpTimer :: "(int \<times> uint64 \<times> FBABallot) option"

text \<open>
  Modelled from the spec: \<^verbatim>\<open>VirtualTimer\<close> is missing. A pending timer that is
  cancelled, or destroyed with the container that holds it, has its handler run with
  the operation-aborted error.
\<close>
definition cancelTimers :: "VirtualTimer list \<Rightarrow> event list" where
  "cancelTimers ts = concat (map (\<lambda>t. handler t operation_aborted) ts)"

section \<open>Ballot signature\<close>

definition verifyStellarBallot :: "Application \<Rightarrow> StellarBallot \<Rightarrow> bool" where
  "verifyStellarBallot app b =
     verifySig (crypto app) (nodeID b) (signature b) (ballotValue b)"

section \<open>Value ordering\<close>

text \<open>
  \<^verbatim>\<open>xdr::operator<\<close> on \<^verbatim>\<open>StellarBallotValue\<close>: field by field, in the order of
  declaration.
  Modelled from the spec: the declaration of \<^verbatim>\<open>StellarBallotValue\<close> (the XDR
  definition file) is missing; the fields and their order are those of the spec's data
  model, \<open>txSetHash\<close>, \<open>closeTime\<close>, \<open>baseFee\<close>.
\<close>
definition value_less :: "StellarBallotValue \<Rightarrow> StellarBallotValue \<Rightarrow> bool" where
  "value_less a b =
     (txSetHash a < txSetHash b \<or>
      (txSetHash a = txSetHash b \<and>
        (closeTime a < closeTime b \<or>
         (closeTime a = closeTime b \<and> baseFee a < baseFee b))))"

text \<open>
  \<^verbatim>\<open>Herder::compareValues\<close>. A value that does not decode, or whose signature does
  not verify, trips an \<^verbatim>\<open>assert\<close>.
\<close>
definition compareValues ::
  "Application \<Rightarrow> uint64 \<Rightarrow> uint32 \<Rightarrow> Value \<Rightarrow> Value \<Rightarrow> error + int" where
  "compareValues app slot ballotCounter v1 v2 =
     (case xdr_from_opaque (crypto app) v1 of
        None \<Rightarrow> Inl AssertionFailed
      | Some b1 \<Rightarrow>
     (case xdr_from_opaque (crypto app) v2 of
        None \<Rightarrow> Inl AssertionFailed
      | Some b2 \<Rightarrow>
          if \<not> verifyStellarBallot app b1 then Inl AssertionFailed
          else if \<not> verifyStellarBallot app b2 then Inl AssertionFailed
          else
            let h1 = roundHash (crypto app) slot ballotCounter (nodeID b1);
                h2 = roundHash (crypto app) slot ballotCounter (nodeID b2)
            in if h1 < h2 then Inr (- 1)
               else if h2 < h1 then Inr 1
               else if value_less (ballotValue b1) (ballotValue b2) then Inr (- 1)
               else if value_less (ballotValue b2) (ballotValue b1) then Inr (- 1)
               else Inr 0))"

section \<open>Fetching transaction sets\<close>

text \<open>
  \<^verbatim>\<open>Herder::fetchTxSet\<close>: the active fetcher of the two. Indexing the array
  outside its bounds is undefined behaviour.
\<close>
definition fetchTxSet ::
  "Herder \<Rightarrow> Hash \<Rightarrow> bool \<Rightarrow> error + (TxSetFrame option \<times> event list)" where
  "fetchTxSet h tsh askNetwork =
     (if mCurrentTxSetFetcher h < length (mTxSetFetcher h)
      then Inr (fetchItem (mTxSetFetcher h ! mCurrentTxSetFetcher h) tsh askNetwork)
      else Inl UndefinedBehaviour)"

section \<open>Validating values\<close>

text \<open>The body of the closure \<^verbatim>\<open>validate\<close>, run on the Herder as it is then.\<close>
definition validate :: "Application \<Rightarrow> Herder \<Rightarrow> ValidateClosure \<Rightarrow> TxSetFrame \<Rightarrow> event list" where
  "validate app h c txSet =
     (if mLedgersToWaitToParticipate h = 0 \<and> \<not> txSet_checkValid app txSet
      then [Callback (vc_cb c) False]
      else [Callback (vc_cb c) True])"

text \<open>\<^verbatim>\<open>Herder::validateValue\<close>.\<close>
definition validateValue ::
  "Application \<Rightarrow> uint64 \<Rightarrow> uint256 \<Rightarrow> Value \<Rightarrow> callback \<Rightarrow> Herder
     \<Rightarrow> error + (event list \<times> Herder)" where
  "validateValue app slot node v cb h =
     (case xdr_from_opaque (crypto app) v of
        None \<Rightarrow> Inr ([Callback cb False], h)
      | Some b \<Rightarrow>
          if \<not> verifyStellarBallot app b then Inr ([Callback cb False], h)
          else if mLedgersToWaitToParticipate h = 0 \<and>
                  ledgerSeq (mLastClosedLedger h) + 1 \<noteq> slot
            then Inr ([Callback cb False], h)
          else if mLedgersToWaitToParticipate h = 0 \<and>
                  closeTime (ballotValue b) \<le> lh_closeTime (mLastClosedLedger h)
            then Inr ([Callback cb False], h)
          else
            let c = \<lparr>vc_cb = cb, vc_b = b, vc_slotIndex = slot, vc_nodeID = node\<rparr>;
                tsh = txSetHash (ballotValue b)
            in (case fetchTxSet h tsh True of
                  Inl e \<Rightarrow> Inl e
                | Inr (None, evs) \<Rightarrow>
                    Inr (evs, h\<lparr>mTxSetFetches := (mTxSetFetches h)(tsh := mTxSetFetches h tsh @ [c])\<rparr>)
                | Inr (Some txSet, evs) \<Rightarrow> Inr (evs @ validate app h c txSet, h)))"

section \<open>Validating ballots\<close>

text \<open>
  \<^verbatim>\<open>(int)pow(2.0, i)\<close>. The power is exact in \<^verbatim>\<open>double\<close>, and up to \<open>i = 30\<close> it fits
  an \<^verbatim>\<open>int\<close>. From \<open>i = 31\<close> on it does not: the standard leaves the conversion
  undefined, and the conversion instruction of x86-64 (\<^verbatim>\<open>cvttsd2si\<close>) then yields
  \<^verbatim>\<open>INT_MIN\<close>, which is the value taken here.
\<close>
definition pow2_int :: "nat \<Rightarrow> int" where
  "pow2_int i = (if i < 31 then 2 ^ i else - (2 ^ 31))"

text \<open>
  The loop that sums the expected timeouts, \<^verbatim>\<open>for (unsigned i = 0; i < ballot.counter
  && timeNow + MAX_TIME_SLIP_SECONDS >= lastTrigger + sumTimeouts; i++)\<close>, with \<open>bound\<close>
  the left-hand side of its second condition. The \<^verbatim>\<open>int\<close> that \<^verbatim>\<open>std::min\<close> returns
  is converted to \<^verbatim>\<open>uint64_t\<close> by the addition, so a negative one makes the sum wrap
  around.
\<close>
function sumTimeoutsLoop ::
  "int \<Rightarrow> uint64 \<Rightarrow> uint64 \<Rightarrow> nat \<Rightarrow> nat \<Rightarrow> uint64 \<Rightarrow> uint64" where
  "sumTimeoutsLoop maxTimeout bound lastTrigger c i sumTimeouts =
     (if i < c \<and> bound \<ge> lastTrigger + sumTimeouts
      then sumTimeoutsLoop maxTimeout bound lastTrigger c (Suc i)
             (sumTimeouts + word_of_int (min maxTimeout (pow2_int i)))
      else sumTimeouts)"
  by pat_completeness auto
termination
  by (relation "measure (\<lambda>(m, b, l, c, i, s). c - i)") auto

text \<open>
  The check on the growth of the ballot counter, lines 242 to 261 of the source: the
  loop, then the comparison that rejects. \<open>True\<close> when the ballot passes.
\<close>
definition counterGrowthCheck :: "Application \<Rightarrow> Herder \<Rightarrow> FBABallot \<Rightarrow> bool" where
  "counterGrowthCheck app h ballot =
     (let timeNow = pointToTimeT app (clock_now app);
          bound = timeNow + word_of_int (MAX_TIME_SLIP_SECONDS (constants app));
          lastTrigger = pointToTimeT app (mLastTrigger h);
          sumTimeouts = sumTimeoutsLoop (MAX_FBA_TIMEOUT_SECONDS (constants app)) bound
                          lastTrigger (unat (counter ballot)) 0 0
      in \<not> bound < lastTrigger + sumTimeouts)"

text \<open>
  The loop over the validators of the local quorum set, which sets \<^verbatim>\<open>isKing\<close> and
  \<^verbatim>\<open>isTrusted\<close>; \<open>n\<close> is \<^verbatim>\<open>b.nodeID\<close>, the pair is (\<open>isKing\<close>, \<open>isTrusted\<close>).
\<close>
fun kingLoop ::
  "Application \<Rightarrow> uint64 \<Rightarrow> uint32 \<Rightarrow> uint256 \<Rightarrow> uint256 list \<Rightarrow> bool \<times> bool \<Rightarrow> bool \<times> bool" where
  "kingLoop app slot c n [] acc = acc"
| "kingLoop app slot c n (vID # vs) (isKing, isTrusted) =
     (let isTrusted' = (if n = vID \<or> n = getLocalNodeID app then True else isTrusted);
          hProposed = roundHash (crypto app) slot c n;
          hContender = roundHash (crypto app) slot c vID;
          isKing' = (if hProposed < hContender then False else isKing)
      in kingLoop app slot c n vs (isKing', isTrusted'))"

definition isKing :: "Application \<Rightarrow> uint64 \<Rightarrow> FBABallot \<Rightarrow> StellarBallot \<Rightarrow> bool" where
  "isKing app slot ballot b =
     fst (kingLoop app slot (counter ballot) (nodeID b) (validators app) (True, False))"

definition isTrusted :: "Application \<Rightarrow> uint64 \<Rightarrow> FBABallot \<Rightarrow> StellarBallot \<Rightarrow> bool" where
  "isTrusted app slot ballot b =
     snd (kingLoop app slot (counter ballot) (nodeID b) (validators app) (True, False))"

text \<open>
  The handler of the deferred-acceptance timer, \<^verbatim>\<open>[cb] (const asio::error_code& error)
  { return cb(true); }\<close>.
\<close>
definition ballotTimerHandler :: "callback \<Rightarrow> error_code \<Rightarrow> event list" where
  "ballotTimerHandler cb error = [Callback cb True]"

text \<open>
  \<^verbatim>\<open>mBallotValidationTimers[ballot][nodeID].push_back(ballotTimer)\<close> on the inner
  \<^verbatim>\<open>std::map\<close>, whose entries are kept in the order of their keys.
\<close>
fun pushTimer ::
  "uint256 \<Rightarrow> VirtualTimer \<Rightarrow> (uint256 \<times> VirtualTimer list) list
     \<Rightarrow> (uint256 \<times> VirtualTimer list) list" where
  "pushTimer k t [] = [(k, [t])]"
| "pushTimer k t ((k', ts) # m) =
     (if k = k' then (k', ts @ [t]) # m
      else if k < k' then (k, [t]) # (k', ts) # m
      else (k', ts) # pushTimer k t m)"

text \<open>The inner map stored under a ballot; empty when the ballot has no entry.\<close>
definition timersOf ::
  "Herder \<Rightarrow> FBABallot \<Rightarrow> (uint256 \<times> VirtualTimer list) list" where
  "timersOf h ballot =
     (case map_of (mBallotValidationTimers h) ballot of None \<Rightarrow> [] | Some m \<Rightarrow> m)"

text \<open>
  The last branch of \<^verbatim>\<open>validateBallot\<close>: arm a timer for half the FBA timeout, store
  it, and erase the ballot's entry when the nodes that asked for it are v-blocking.
  \<^verbatim>\<open>(int)(1000*pow(2.0, ballot.counter)/2)\<close> is \<open>500 * 2 ^ counter\<close>, and undefined
  when that does not fit an \<^verbatim>\<open>int\<close>.
\<close>
definition deferBallot ::
  "Application \<Rightarrow> uint256 \<Rightarrow> FBABallot \<Rightarrow> callback \<Rightarrow> Herder \<Rightarrow> error + (event list \<times> Herder)" where
  "deferBallot app node ballot cb h =
     (let ms = 500 * 2 ^ unat (counter ballot) :: int
      in if 2 ^ 31 \<le> ms then Inl UndefinedBehaviour
         else
           let ballotTimer = \<lparr>expires_from_now = ms, handler = ballotTimerHandler cb\<rparr>;
               m = pushTimer node ballotTimer (timersOf h ballot);
               nodes = map fst m
           in if isVBlocking app nodes
              then Inr (cancelTimers (concat (map snd m)),
                        h\<lparr>mBallotValidationTimers :=
                            filter (\<lambda>e. fst e \<noteq> ballot) (mBallotValidationTimers h)\<rparr>)
              else Inr ([],
                        h\<lparr>mBallotValidationTimers :=
                            (ballot, m) # filter (\<lambda>e. fst e \<noteq> ballot) (mBallotValidationTimers h)\<rparr>))"

text \<open>
  \<^verbatim>\<open>Herder::validateBallot\<close>. The comparison of the base fee with half the desired
  fee is made in \<^verbatim>\<open>double\<close>, where both sides are exact.
\<close>
definition validateBallot ::
  "Application \<Rightarrow> uint64 \<Rightarrow> uint256 \<Rightarrow> FBABallot \<Rightarrow> callback \<Rightarrow> Herder
     \<Rightarrow> error + (event list \<times> Herder)" where
  "validateBallot app slot node ballot cb h =
     (case xdr_from_opaque (crypto app) (opaqueValue ballot) of
        None \<Rightarrow> Inr ([Callback cb False], h)
      | Some b \<Rightarrow>
          let timeNow = pointToTimeT app (clock_now app)
          in if closeTime (ballotValue b) >
                  timeNow + word_of_int (MAX_TIME_SLIP_SECONDS (constants app))
             then Inr ([Callback cb False], h)
             else if \<not> counterGrowthCheck app h ballot
               then Inr ([Callback cb False], h)
             else if 2 * unat (baseFee (ballotValue b)) < unat (DESIRED_BASE_FEE app)
               then Inr ([Callback cb False], h)
             else if baseFee (ballotValue b) > DESIRED_BASE_FEE app * 2
               then Inr ([Callback cb False], h)
             else if secretKeyIsZero app \<and> node = getLocalNodeID app
               then Inr ([Callback cb False], h)
             else if isKing app slot ballot b \<and> isTrusted app slot ballot b
               then Inr ([Callback cb True], h)
             else deferBallot app node ballot cb h)"

section \<open>The pool of received transactions\<close>

text \<open>
  The walk of \<^verbatim>\<open>recvTransaction\<close> over one bucket: \<open>None\<close> when a transaction
  with the same full hash is met (the function returns false there), else the count of
  transactions with the same source account, added to \<open>numOthers\<close>.
\<close>
fun scanBucket :: "TransactionFrame \<Rightarrow> TransactionFrame list \<Rightarrow> nat \<Rightarrow> nat option" where
  "scanBucket tx [] numOthers = Some numOthers"
| "scanBucket tx (oldTX # rest) numOthers =
     (if getFullHash tx = getFullHash oldTX then None
      else scanBucket tx rest
             (if getSourceID oldTX = getSourceID tx then Suc numOthers else numOthers))"

fun scanBuckets :: "TransactionFrame \<Rightarrow> TransactionFrame list list \<Rightarrow> nat \<Rightarrow> nat option" where
  "scanBuckets tx [] numOthers = Some numOthers"
| "scanBuckets tx (l # ls) numOthers =
     (case scanBucket tx l numOthers of
        None \<Rightarrow> None
      | Some n \<Rightarrow> scanBuckets tx ls n)"

text \<open>
  \<^verbatim>\<open>Herder::recvTransaction\<close>. \<^verbatim>\<open>mReceivedTransactions[0]\<close> on an empty vector is
  undefined behaviour.
\<close>
definition recvTransaction ::
  "Application \<Rightarrow> TransactionFrame \<Rightarrow> Herder \<Rightarrow> error + (bool \<times> Herder)" where
  "recvTransaction app tx h =
     (case scanBuckets tx (mReceivedTransactions h) 0 of
        None \<Rightarrow> Inr (False, h)
      | Some numOthers \<Rightarrow>
          if \<not> tx_checkValid app tx then Inr (False, h)
          else if getBalance app tx < (int numOthers + 1) * getTxFee app then Inr (False, h)
          else (case mReceivedTransactions h of
                  [] \<Rightarrow> Inl UndefinedBehaviour
                | l # ls \<Rightarrow> Inr (True, h\<lparr>mReceivedTransactions := (l @ [tx]) # ls\<rparr>)))"

text \<open>
  The inner loop of \<^verbatim>\<open>removeReceivedTx\<close>: erase the first entry of the bucket with
  the hash, \<open>None\<close> when the bucket has none.
\<close>
fun eraseFirst :: "Hash \<Rightarrow> TransactionFrame list \<Rightarrow> TransactionFrame list option" where
  "eraseFirst d [] = None"
| "eraseFirst d (x # xs) =
     (if getFullHash x = d then Some xs
      else (case eraseFirst d xs of None \<Rightarrow> None | Some ys \<Rightarrow> Some (x # ys)))"

text \<open>\<^verbatim>\<open>Herder::removeReceivedTx\<close>, on the vector of buckets: it returns after the first erasure.\<close>
fun removeReceivedTx ::
  "TransactionFrame \<Rightarrow> TransactionFrame list list \<Rightarrow> TransactionFrame list list" where
  "removeReceivedTx dropTx [] = []"
| "removeReceivedTx dropTx (l # ls) =
     (case eraseFirst (getFullHash dropTx) l of
        Some l' \<Rightarrow> l' # ls
      | None \<Rightarrow> l # removeReceivedTx dropTx ls)"

text \<open>
  The rotation at the end of \<^verbatim>\<open>valueExternalized\<close>, \<^verbatim>\<open>for (size_t n = size() - 1;
  n > 0; n--)\<close>: bucket \<open>n\<close> gets the transactions of bucket \<open>n - 1\<close> pushed at its back,
  and bucket \<open>n - 1\<close> is cleared.
\<close>
fun rotateLoop :: "nat \<Rightarrow> TransactionFrame list list \<Rightarrow> TransactionFrame list list" where
  "rotateLoop 0 rt = rt"
| "rotateLoop (Suc m) rt = rotateLoop m (rt[Suc m := rt ! Suc m @ rt ! m, m := []])"

section \<open>Externalising a value\<close>

text \<open>The loop that evicts the nodes not touched for \<^verbatim>\<open>NODE_EXPIRATION_SECONDS\<close>.\<close>
definition evictNodes :: "Application \<Rightarrow> Herder \<Rightarrow> event list" where
  "evictNodes app h =
     map (\<lambda>it. PurgeNode (fst it))
       (filter (\<lambda>it. clock_now app - snd it >
                  NODE_EXPIRATION_SECONDS (constants app) * 1000000000)
          (mNodeLastAccess h))"

text \<open>
  The \<^verbatim>\<open>try\<close> block of \<^verbatim>\<open>valueExternalized\<close>: the decoded ballot, or what the
  decoder left and a line of the error log.
\<close>
definition decodeExternalized :: "Application \<Rightarrow> Value \<Rightarrow> StellarBallot \<times> event list" where
  "decodeExternalized app v =
     (case xdr_from_opaque (crypto app) v of
        None \<Rightarrow> (xdr_partial (crypto app) v, [LogError])
      | Some b \<Rightarrow> (b, []))"

text \<open>
  \<^verbatim>\<open>Herder::valueExternalized\<close>. The bump timer is cancelled (its handler,
  \<^verbatim>\<open>expireBallot\<close>, returns at once on the aborted error). When the value does not
  decode, the error is logged and the function goes on with what the decoder left. The
  \<^verbatim>\<open>assert\<close> guards the read of bucket 1.
\<close>
definition valueExternalized ::
  "Application \<Rightarrow> uint64 \<Rightarrow> Value \<Rightarrow> Herder \<Rightarrow> error + (event list \<times> Herder)" where
  "valueExternalized app slot v h0 =
     (let h = h0\<lparr>mBumpTimer := None\<rparr>;
          (b, evs0) = decodeExternalized app v
      in case fetchTxSet h (txSetHash (ballotValue b)) False of
           Inl e \<Rightarrow> Inl e
         | Inr (None, evs1) \<Rightarrow> Inr (evs0 @ evs1 @ [LogError], h)
         | Inr (Some externalizedSet, evs1) \<Rightarrow>
             let cur = (if mCurrentTxSetFetcher h \<noteq> 0 then 0 else 1)
             in if \<not> cur < length (mTxSetFetcher h) then Inl UndefinedBehaviour
                else
                  let rt = fold removeReceivedTx (mTransactions externalizedSet)
                             (mReceivedTransactions h)
                  in if \<not> 2 \<le> length rt then Inl AssertionFailed
                     else
                       Inr (evs0 @ evs1 @
                            [StopFetchingAll (mCurrentTxSetFetcher h),
                             ExternalizeValue externalizedSet] @
                            map BroadcastTransaction (rt ! 1) @
                            evictNodes app h @
                            (if slot > word_of_int (LEDGER_VALIDITY_BRACKET (constants app))
                             then [PurgeSlots
                                     (slot - word_of_int (LEDGER_VALIDITY_BRACKET (constants app)))]
                             else []),
                            h\<lparr>mCurrentTxSetFetcher := cur,
                              mTxSetFetcher := (mTxSetFetcher h)[cur := []],
                              mReceivedTransactions := rotateLoop (length rt - 1) rt\<rparr>))"

section \<open>Receiving envelopes\<close>

text \<open>
  The lower end of the validity bracket,
  \<^verbatim>\<open>((int)ledgerSeq - LEDGER_VALIDITY_BRACKET) < 0 ? 0 : (ledgerSeq -
  LEDGER_VALIDITY_BRACKET)\<close>: the test is made on \<^verbatim>\<open>int\<close>, where a difference out of
  range is undefined; the other branch is unsigned.
\<close>
definition minLedgerSeq :: "Application \<Rightarrow> Herder \<Rightarrow> error + uint64" where
  "minLedgerSeq app h =
     (let d = sint (ucast (ledgerSeq (mLastClosedLedger h)) :: 32 word) -
              LEDGER_VALIDITY_BRACKET (constants app)
      in if d < - (2 ^ 31) \<or> 2 ^ 31 \<le> d then Inl UndefinedBehaviour
         else if d < 0 then Inr 0
         else Inr (ledgerSeq (mLastClosedLedger h) -
                   word_of_int (LEDGER_VALIDITY_BRACKET (constants app))))"

definition maxLedgerSeq :: "Application \<Rightarrow> Herder \<Rightarrow> uint64" where
  "maxLedgerSeq app h =
     ledgerSeq (mLastClosedLedger h) + word_of_int (LEDGER_VALIDITY_BRACKET (constants app))"

text \<open>\<^verbatim>\<open>Herder::recvFBAEnvelope\<close>.\<close>
definition recvFBAEnvelope ::
  "Application \<Rightarrow> FBAEnvelope \<Rightarrow> callback \<Rightarrow> Herder \<Rightarrow> error + (event list \<times> Herder)" where
  "recvFBAEnvelope app envelope cb h =
     (let s = slotIndex (statement envelope)
      in if mLedgersToWaitToParticipate h = 0
         then (case minLedgerSeq app h of
                 Inl e \<Rightarrow> Inl e
               | Inr lo \<Rightarrow>
                   if s > maxLedgerSeq app h \<or> s < lo then Inr ([], h)
                   else if s > ledgerSeq (mLastClosedLedger h) + 1
                     then Inr ([ReceiveEnvelope envelope cb],
                               h\<lparr>mFutureEnvelopes :=
                                   (mFutureEnvelopes h)(s := mFutureEnvelopes h s @ [(envelope, cb)])\<rparr>)
                   else Inr ([ReceiveEnvelope envelope cb], h))
         else Inr ([ReceiveEnvelope envelope cb], h))"

section \<open>Closing a ledger\<close>

text \<open>
  \<^verbatim>\<open>Herder::ledgerClosed\<close>. Clearing \<^verbatim>\<open>mBallotValidationTimers\<close> destroys the
  timers it holds. The trigger timer, once armed, holds its delay in nanoseconds; its
  handler \<^verbatim>\<open>triggerNextLedger\<close> returns at once on a cancellation.
\<close>
definition ledgerClosed ::
  "Application \<Rightarrow> LedgerHeader \<Rightarrow> Herder \<Rightarrow> event list \<times> Herder" where
  "ledgerClosed app ledger h0 =
     (let evs = cancelTimers (concat (map snd (concat (map snd (mBallotValidationTimers h0)))));
          h1 = h0\<lparr>mLastClosedLedger := ledger, mBallotValidationTimers := []\<rparr>;
          h2 = (if mLedgersToWaitToParticipate h1 > 0 \<and> getState app \<noteq> SYNCED_STATE
                then h1\<lparr>mLedgersToWaitToParticipate := mLedgersToWaitToParticipate h1 - 1\<rparr>
                else h1)
      in if secretKeyIsZero app then (evs, h2)
         else if mLedgersToWaitToParticipate h2 > 0 then (evs, h2)
         else
           let span = EXP_LEDGER_TIMESPAN_SECONDS (constants app) * 1000000000;
               elapsed = clock_now app - mLastTrigger h2
           in if elapsed < span
              then (evs, h2\<lparr>mTriggerTimer := Some (span - elapsed)\<rparr>)
              else (evs, h2\<lparr>mTriggerTimer := Some 0\<rparr>))"

section \<open>A concrete environment for evaluation\<close>

text \<open>
  Stand-ins for the collaborators, used to run the model on concrete inputs: a value of
  three bytes \<open>[n, s, f]\<close> decodes to the ballot of node \<open>n\<close> with signature \<open>s\<close> and
  base fee \<open>f\<close>; a signature verifies when it equals the node id; the round hash of a
  node is its id.
\<close>
definition test_decode :: "Value \<Rightarrow> StellarBallot option" where
  "test_decode v =
     (case v of
        [n, s, f] \<Rightarrow>
          Some \<lparr>nodeID = ucast n, signature = ucast s,
                ballotValue = \<lparr>txSetHash = 0, closeTime = 0, baseFee = ucast f\<rparr>\<rparr>
      | _ \<Rightarrow> None)"

definition test_crypto :: Crypto where
  "test_crypto =
     \<lparr>xdr_from_opaque = test_decode,
      xdr_partial = (\<lambda>v. \<lparr>nodeID = 0, signature = 0,
        ballotValue = \<lparr>txSetHash = 0, closeTime = 0, baseFee = 0\<rparr>\<rparr>),
      verifySig = (\<lambda>n s v. ucast n = s),
      roundHash = (\<lambda>s c n. n)\<rparr>"

definition test_consts :: Constants where
  "test_consts =
     \<lparr>MAX_TIME_SLIP_SECONDS = 60, MAX_FBA_TIMEOUT_SECONDS = 240,
      LEDGER_VALIDITY_BRACKET = 10, NODE_EXPIRATION_SECONDS = 240,
      EXP_LEDGER_TIMESPAN_SECONDS = 2\<rparr>"

definition test_app :: Application where
  "test_app =
     \<lparr>constants = test_consts, crypto = test_crypto, DESIRED_BASE_FEE = 10,
      clock_now = 1000000000000, pointToTimeT = (\<lambda>t. word_of_int (t div 1000000000)),
      getState = SYNCED_STATE, getLocalNodeID = 1, secretKeyIsZero = False,
      validators = [1, 2, 3], isVBlocking = (\<lambda>ns. 2 \<le> length ns),
      tx_checkValid = (\<lambda>tx. True), getBalance = (\<lambda>tx. 1000), getTxFee = 10,
      txSet_checkValid = (\<lambda>s. True),
      getContentsHash = (\<lambda>s. word_of_nat (length (mTransactions s)))\<rparr>"

text \<open>
  A Herder as the constructor leaves it (four buckets, two fetchers), fully synced, with
  ledger 5 closed and the last trigger at the current time.
\<close>
definition test_herder :: Herder where
  "test_herder =
     \<lparr>mReceivedTransactions = [[], [], [], []],
      mTxSetFetcher = [[], []],
      mCurrentTxSetFetcher = 0,
      mTxSetFetches = (\<lambda>h. []),
      mFutureEnvelopes = (\<lambda>s. []),
      mBallotValidationTimers = [],
      mNodeLastAccess = [],
      mLedgersToWaitToParticipate = 0,
      mLastClosedLedger = \<lparr>ledgerSeq = 5, hash = 0, lh_closeTime = 0\<rparr>,
      mLastTrigger = 1000000000000,
      mTriggerTimer = None,
      mBumpTimer = None\<rparr>"

definition test_tx :: "Hash \<Rightarrow> TransactionFrame" where
  "test_tx n = \<lparr>getFullHash = n, getSourceID = 7\<rparr>"

text \<open>The same Herder, ten seconds after its last trigger.\<close>
definition late_herder :: Herder where
  "late_herder = test_herder\<lparr>mLastTrigger := 990000000000\<rparr>"

text \<open>
  A Herder whose last trigger was at \<open>2 ^ 32\<close> seconds, an application whose clock is
  5800 seconds later, and a ballot with counter 33.
\<close>
definition far_herder :: Herder where
  "far_herder = test_herder\<lparr>mLastTrigger := 4294967296000000000\<rparr>"

definition far_app :: Application where
  "far_app = test_app\<lparr>clock_now := 4294973096000000000\<rparr>"

definition far_ballot :: FBABallot where
  "far_ballot = \<lparr>counter = 33, opaqueValue = [3, 3, 10]\<rparr>"

text \<open>An envelope for slot 7, two ledgers ahead of the last closed one.\<close>
definition test_envelope :: FBAEnvelope where
  "test_envelope = \<lparr>env_nodeID = 2, statement = \<lparr>slotIndex = 7, pledges = []\<rparr>\<rparr>"

text \<open>
  A ballot of node 1, which is trusted but not the king of the round, and the Herder
  after node 2 has asked to validate it: one timer of 500 ms, stored under the ballot
  and node 2.
\<close>
definition deferred_ballot :: FBABallot where
  "deferred_ballot = \<lparr>counter = 0, opaqueValue = [1, 1, 10]\<rparr>"

definition deferred_herder :: Herder where
  "deferred_herder =
     test_herder\<lparr>mBallotValidationTimers :=
       [(deferred_ballot, [(2, [\<lparr>expires_from_now = 500, handler = ballotTimerHandler 0\<rparr>])])]\<rparr>"

text \<open>
  A Herder with one transaction in each bucket, whose active fetcher holds the
  transaction set of hash 0, made of the transaction of bucket 0; and the Herder after
  that set has been externalised.
\<close>
definition test_txSet :: TxSetFrame where
  "test_txSet = \<lparr>mTransactions = [test_tx 0], mPreviousLedgerHash = 0\<rparr>"

definition pool_herder :: Herder where
  "pool_herder =
     test_herder\<lparr>mReceivedTransactions := [[test_tx 0], [test_tx 1], [test_tx 2], [test_tx 3]],
                 mTxSetFetcher := [[(0, test_txSet)], []]\<rparr>"

definition externalized_herder :: Herder where
  "externalized_herder =
     test_herder\<lparr>mReceivedTransactions := [[], [], [test_tx 1], [test_tx 3, test_tx 2]],
                 mTxSetFetcher := [[(0, test_txSet)], []],
                 mCurrentTxSetFetcher := 1\<rparr>"

text \<open>The Herder after it has received transaction 1.\<close>
definition one_tx_herder :: Herder where
  "one_tx_herder = test_herder\<lparr>mReceivedTransactions := [[test_tx 1], [], [], []]\<rparr>"

section \<open>Properties\<close>

text \<open>
  The equations of the loops are unfolded by hand, one iteration at a time.
\<close>
declare sumTimeoutsLoop.simps [simp del]


subsection \<open>C1: the king of a round\<close>

lemma kingLoop_fst:
  "fst (kingLoop app slot c n vs (k, t)) =
     (k \<and> (\<forall>v\<in>set vs. \<not> roundHash (crypto app) slot c n < roundHash (crypto app) slot c v))"
  by (induction vs arbitrary: k t) (auto simp: Let_def)

lemma kingLoop_snd:
  "snd (kingLoop app slot c n vs (k, t)) =
     (t \<or> (vs \<noteq> [] \<and> (n \<in> set vs \<or> n = getLocalNodeID app)))"
  by (induction vs arbitrary: k t) (auto simp: Let_def)

text \<open>
  C1, as amended. The loop of \<^verbatim>\<open>validateBallot\<close> clears \<^verbatim>\<open>isKing\<close> whenever the
  hash of the ballot's signer is strictly below the hash of a validator of the local
  quorum set. So the ballot is classified as king if and only if, for every validator
  \<open>v\<close> of the local quorum set, \<open>H(slotIndex || counter || v) \<le> H(slotIndex || counter ||
  signer)\<close>: the king is the node whose hash is the highest, not the lowest.
\<close>
theorem isKing_iff_hash_maximal:
  "isKing app slot ballot b =
     (\<forall>v\<in>set (validators app).
        roundHash (crypto app) slot (counter ballot) v
          \<le> roundHash (crypto app) slot (counter ballot) (nodeID b))"
  by (simp add: isKing_def kingLoop_fst not_less)

theorem isKing_iff_hash_maximal_witness:
  "isKing test_app 6 \<lparr>counter = 0, opaqueValue = [3, 3, 10]\<rparr>
     \<lparr>nodeID = 3, signature = 3,
      ballotValue = \<lparr>txSetHash = 0, closeTime = 0, baseFee = 10\<rparr>\<rparr>"
  using isKing_iff_hash_maximal [of test_app 6 "\<lparr>counter = 0, opaqueValue = [3, 3, 10]\<rparr>"
     "\<lparr>nodeID = 3, signature = 3,
      ballotValue = \<lparr>txSetHash = 0, closeTime = 0, baseFee = 10\<rparr>\<rparr>"]
  by (simp add: test_app_def test_crypto_def)

text \<open>
  C1 as stated fails: with the validators 1, 2, 3 and the hash of a node being its id,
  the hash of node 1 is at or below the hash of every validator, and the ballot of node
  1 is not king.
\<close>
theorem isKing_hash_minimal_counterexample:
  "validators test_app = [1, 2, 3] \<and>
   roundHash (crypto test_app) 6 0 1 \<le> roundHash (crypto test_app) 6 0 1 \<and>
   roundHash (crypto test_app) 6 0 1 \<le> roundHash (crypto test_app) 6 0 2 \<and>
   roundHash (crypto test_app) 6 0 1 \<le> roundHash (crypto test_app) 6 0 3 \<and>
   \<not> isKing test_app 6 \<lparr>counter = 0, opaqueValue = [1, 1, 10]\<rparr>
     \<lparr>nodeID = 1, signature = 1,
      ballotValue = \<lparr>txSetHash = 0, closeTime = 0, baseFee = 10\<rparr>\<rparr>"
  by (simp add: isKing_def test_app_def test_crypto_def)

text \<open>
  The counterexample does not depend on the stand-in hash: whenever the signer's hash
  is strictly below that of some validator, the ballot is not king.
\<close>
lemma isKing_below_some_validator:
  "v \<in> set (validators app) \<Longrightarrow>
   roundHash (crypto app) slot (counter ballot) (nodeID b)
     < roundHash (crypto app) slot (counter ballot) v \<Longrightarrow>
   \<not> isKing app slot ballot b"
  by (auto simp: isKing_def kingLoop_fst)

subsection \<open>C2: the value comparator\<close>

text \<open>
  For every pair of values that decode and verify and whose round hashes are equal, the
  comparator answers \<open>-1\<close> as soon as the two ballot values differ in either direction.
\<close>
lemma compareValues_equal_hashes:
  assumes "xdr_from_opaque (crypto app) v1 = Some b1"
    and "xdr_from_opaque (crypto app) v2 = Some b2"
    and "verifyStellarBallot app b1" and "verifyStellarBallot app b2"
    and "roundHash (crypto app) slot c (nodeID b1) = roundHash (crypto app) slot c (nodeID b2)"
  shows "compareValues app slot c v1 v2 =
           (if value_less (ballotValue b1) (ballotValue b2) \<or>
               value_less (ballotValue b2) (ballotValue b1)
            then Inr (- 1) else Inr 0)"
  using assms by (simp add: compareValues_def Let_def)

text \<open>
  C2. The claim: for decodable, verified values whose round hashes are equal,
  \<open>compareValues\<close> returns \<open>-1\<close> when \<open>v1.value\<close> is below \<open>v2.value\<close>, \<open>+1\<close> when
  \<open>v2.value\<close> is below \<open>v1.value\<close>, and \<open>0\<close> when they are equal. The source returns
  \<open>-1\<close> in the second case too: the two values below are signed by the same node 1, so
  their round hashes are equal, and the first has the larger base fee, yet the result is
  \<open>-1\<close>, while with the arguments swapped it is \<open>-1\<close> as well.
\<close>
theorem compareValues_above_returns_minus_one:
  "xdr_from_opaque (crypto test_app) [1, 1, 7] =
     Some \<lparr>nodeID = 1, signature = 1,
           ballotValue = \<lparr>txSetHash = 0, closeTime = 0, baseFee = 7\<rparr>\<rparr> \<and>
   xdr_from_opaque (crypto test_app) [1, 1, 5] =
     Some \<lparr>nodeID = 1, signature = 1,
           ballotValue = \<lparr>txSetHash = 0, closeTime = 0, baseFee = 5\<rparr>\<rparr> \<and>
   value_less \<lparr>txSetHash = 0, closeTime = 0, baseFee = 5\<rparr>
              \<lparr>txSetHash = 0, closeTime = 0, baseFee = 7\<rparr> \<and>
   compareValues test_app 6 0 [1, 1, 7] [1, 1, 5] = Inr (- 1) \<and>
   compareValues test_app 6 0 [1, 1, 5] [1, 1, 7] = Inr (- 1)"
  by (simp add: compareValues_def test_app_def test_crypto_def test_decode_def
      verifyStellarBallot_def value_less_def)

subsection \<open>C3: the signature in \<open>validateBallot\<close>\<close>

lemma kingLoop_verifySig:
  "kingLoop (app\<lparr>crypto := (crypto app)\<lparr>verifySig := f\<rparr>\<rparr>) slot c n vs acc =
   kingLoop app slot c n vs acc"
  by (induction vs arbitrary: acc) (auto simp: Let_def)

lemma counterGrowthCheck_verifySig:
  "counterGrowthCheck (app\<lparr>crypto := (crypto app)\<lparr>verifySig := f\<rparr>\<rparr>) h ballot =
   counterGrowthCheck app h ballot"
  by (simp add: counterGrowthCheck_def)

lemma deferBallot_verifySig:
  "deferBallot (app\<lparr>crypto := (crypto app)\<lparr>verifySig := f\<rparr>\<rparr>) node ballot cb h =
   deferBallot app node ballot cb h"
  by (simp add: deferBallot_def)

text \<open>
  C3, as amended. \<^verbatim>\<open>validateBallot\<close> decodes the ballot's value and never calls
  \<^verbatim>\<open>verifyStellarBallot\<close>: what it does is the same whatever the signature check
  would answer. A signature that does not verify is a validation negative in
  \<^verbatim>\<open>validateValue\<close>, which calls \<open>cb(false)\<close> and leaves the Herder as it was.
\<close>
theorem validateBallot_ignores_signature:
  "validateBallot (app\<lparr>crypto := (crypto app)\<lparr>verifySig := f\<rparr>\<rparr>) slot node ballot cb h =
     validateBallot app slot node ballot cb h \<and>
   (xdr_from_opaque (crypto app) (opaqueValue ballot) = Some b \<and> \<not> verifyStellarBallot app b
      \<longrightarrow> validateValue app slot node (opaqueValue ballot) cb h = Inr ([Callback cb False], h))"
  by (simp add: validateBallot_def validateValue_def isKing_def isTrusted_def
      kingLoop_verifySig counterGrowthCheck_verifySig deferBallot_verifySig Let_def
      cong: option.case_cong if_cong)

theorem validateBallot_ignores_signature_witness:
  "validateBallot (test_app\<lparr>crypto := (crypto test_app)\<lparr>verifySig := (\<lambda>n s v. True)\<rparr>\<rparr>) 6 2
       \<lparr>counter = 0, opaqueValue = [3, 9, 10]\<rparr> 0 test_herder =
     validateBallot test_app 6 2 \<lparr>counter = 0, opaqueValue = [3, 9, 10]\<rparr> 0 test_herder \<and>
   xdr_from_opaque (crypto test_app) [3, 9, 10] =
     Some \<lparr>nodeID = 3, signature = 9,
           ballotValue = \<lparr>txSetHash = 0, closeTime = 0, baseFee = 10\<rparr>\<rparr> \<and>
   \<not> verifyStellarBallot test_app \<lparr>nodeID = 3, signature = 9,
           ballotValue = \<lparr>txSetHash = 0, closeTime = 0, baseFee = 10\<rparr>\<rparr> \<and>
   validateValue test_app 6 2 [3, 9, 10] 0 test_herder = Inr ([Callback 0 False], test_herder)"
  using validateBallot_ignores_signature [where app = test_app and f = "\<lambda>n s v. True"
      and slot = 6 and node = 2 and ballot = "\<lparr>counter = 0, opaqueValue = [3, 9, 10]\<rparr>"
      and cb = 0 and h = test_herder
      and b = "\<lparr>nodeID = 3, signature = 9,
           ballotValue = \<lparr>txSetHash = 0, closeTime = 0, baseFee = 10\<rparr>\<rparr>"]
  by (simp add: test_app_def test_crypto_def test_decode_def verifyStellarBallot_def)

text \<open>
  C3 as stated fails: the value \<open>[3, 9, 10]\<close> decodes to a ballot of node 3 whose
  signature does not verify; node 3 is a validator and the king of the round, the close
  time, the counter and the fee pass, and \<^verbatim>\<open>validateBallot\<close> calls \<open>cb(true)\<close>.
\<close>
theorem validateBallot_bad_signature_counterexample:
  "xdr_from_opaque (crypto test_app) [3, 9, 10] =
     Some \<lparr>nodeID = 3, signature = 9,
           ballotValue = \<lparr>txSetHash = 0, closeTime = 0, baseFee = 10\<rparr>\<rparr> \<and>
   \<not> verifyStellarBallot test_app \<lparr>nodeID = 3, signature = 9,
           ballotValue = \<lparr>txSetHash = 0, closeTime = 0, baseFee = 10\<rparr>\<rparr> \<and>
   validateBallot test_app 6 2 \<lparr>counter = 0, opaqueValue = [3, 9, 10]\<rparr> 0 test_herder =
     Inr ([Callback 0 True], test_herder)"
  by (simp add: validateBallot_def test_app_def test_crypto_def test_decode_def test_consts_def
     counterGrowthCheck_def isKing_def isTrusted_def test_herder_def verifyStellarBallot_def
     sumTimeoutsLoop.simps)

subsection \<open>C8: the bound on the growth of the ballot counter\<close>

text \<open>
  While the loop runs with \<open>i \<le> 31\<close> its sum is the sum of the expected timeouts, and a
  ballot that passes the final comparison has met the loop's condition at every \<open>i\<close>.
\<close>
lemma sumTimeoutsLoop_inv:
  "i \<le> c \<Longrightarrow> i \<le> 31 \<Longrightarrow> s = word_of_int (\<Sum>k<i. min m (2 ^ k)) \<Longrightarrow>
   \<not> bound < lt + sumTimeoutsLoop m bound lt c i s \<Longrightarrow>
   (\<forall>k. i \<le> k \<and> k < c \<and> k \<le> 31 \<longrightarrow> lt + word_of_int (\<Sum>j<k. min m (2 ^ j)) \<le> bound)"
proof (induction m bound lt c i s rule: sumTimeoutsLoop.induct)
  case (1 m bound lt c i s)
  show ?case
  proof (cases "i < c \<and> lt + s \<le> bound")
    case True
    then have rec: "sumTimeoutsLoop m bound lt c i s =
        sumTimeoutsLoop m bound lt c (Suc i) (s + word_of_int (min m (pow2_int i)))"
      by (subst sumTimeoutsLoop.simps) simp
    have here: "lt + word_of_int (\<Sum>j<i. min m (2 ^ j)) \<le> bound"
      using True "1.prems"(3) by simp
    show ?thesis
    proof (cases "i < 31")
      case small: True
      then have s': "s + word_of_int (min m (pow2_int i)) = word_of_int (\<Sum>k<Suc i. min m (2 ^ k))"
        using "1.prems"(3) by (simp add: pow2_int_def)
      from True have le: "Suc i \<le> c" by simp
      from small have le31: "Suc i \<le> 31" by simp
      from "1.prems"(4) rec
      have pass: "\<not> bound < lt + sumTimeoutsLoop m bound lt c (Suc i)
                     (s + word_of_int (min m (pow2_int i)))"
        by simp
      from "1.IH" [OF True le le31 s' pass]
      have ih: "\<forall>k. Suc i \<le> k \<and> k < c \<and> k \<le> 31 \<longrightarrow>
                  lt + word_of_int (\<Sum>j<k. min m (2 ^ j)) \<le> bound" .
      show ?thesis
      proof (intro allI impI)
        fix k assume k: "i \<le> k \<and> k < c \<and> k \<le> 31"
        show "lt + word_of_int (\<Sum>j<k. min m (2 ^ j)) \<le> bound"
        proof (cases "k = i")
          case True
          with here show ?thesis by simp
        next
          case False
          with k ih show ?thesis by (simp add: Suc_le_eq)
        qed
      qed
    next
      case False
      with "1.prems"(2) have "i = 31" by simp
      with here show ?thesis by auto
    qed
  next
    case False
    then have r: "sumTimeoutsLoop m bound lt c i s = s"
      by (subst sumTimeoutsLoop.simps) auto
    with False "1.prems"(1,4) have "i = c" by (auto simp: not_less)
    then show ?thesis by auto
  qed
qed

text \<open>
  A ballot that \<^verbatim>\<open>validateBallot\<close> does not reject has passed the check on the growth
  of its counter.
\<close>
lemma validateBallot_passes_counterGrowthCheck:
  assumes "validateBallot app slot node ballot cb h = Inr (evs, h')"
    and "evs \<noteq> [Callback cb False]"
  shows "counterGrowthCheck app h ballot"
  using assms
  by (auto simp: validateBallot_def Let_def split: option.splits if_splits)

text \<open>
  For the counters from 1 to 32 the bound of the claim holds, on the \<^verbatim>\<open>uint64_t\<close>
  values the source compares: the last test of the loop, at \<open>i = c - 1\<close>, is the
  inequality with the timeouts up to \<open>c - 2\<close>, none of which has overflowed yet.
\<close>
lemma counter_growth_bound_upto_32:
  assumes pass: "counterGrowthCheck app h ballot"
    and c: "1 \<le> unat (counter ballot)" "unat (counter ballot) \<le> 32"
  shows "pointToTimeT app (mLastTrigger h) +
           word_of_int (\<Sum>k<unat (counter ballot) - 1.
              min (MAX_FBA_TIMEOUT_SECONDS (constants app)) (2 ^ k))
         \<le> pointToTimeT app (clock_now app) +
             word_of_int (MAX_TIME_SLIP_SECONDS (constants app))"
proof -
  let ?bound = "pointToTimeT app (clock_now app) +
             word_of_int (MAX_TIME_SLIP_SECONDS (constants app))"
  let ?last = "pointToTimeT app (mLastTrigger h)"
  let ?m = "MAX_FBA_TIMEOUT_SECONDS (constants app)"
  let ?c = "unat (counter ballot)"
  from pass have ok: "\<not> ?bound < ?last + sumTimeoutsLoop ?m ?bound ?last ?c 0 0"
    by (simp add: counterGrowthCheck_def Let_def)
  have "\<forall>k. 0 \<le> k \<and> k < ?c \<and> k \<le> 31 \<longrightarrow> ?last + word_of_int (\<Sum>j<k. min ?m (2 ^ j)) \<le> ?bound"
    by (rule sumTimeoutsLoop_inv [OF _ _ _ ok]) simp_all
  with c show ?thesis by simp
qed

lemma counterGrowthCheck_ten_seconds:
  "counterGrowthCheck test_app late_herder \<lparr>counter = 3, opaqueValue = [3, 3, 10]\<rparr> \<and>
   \<not> counterGrowthCheck test_app late_herder \<lparr>counter = 8, opaqueValue = [3, 3, 10]\<rparr>"
  by (simp add: counterGrowthCheck_def test_app_def test_consts_def late_herder_def
      test_herder_def sumTimeoutsLoop.simps pow2_int_def)

lemma expected_timeouts_32: "(\<Sum>k<32. min (240::int) (2 ^ k)) = 6015"
  by (simp add: eval_nat_numeral lessThan_Suc)

lemma far_counterGrowthCheck: "counterGrowthCheck far_app far_herder far_ballot"
  by (simp add: counterGrowthCheck_def far_app_def far_herder_def far_ballot_def test_app_def
      test_consts_def test_herder_def sumTimeoutsLoop.simps pow2_int_def)

text \<open>
  C8. The claim: every ballot with counter \<open>c \<ge> 1\<close> that passes the check on the growth
  of the counter satisfies \<open>now + MAX_TIME_SLIP_SECONDS \<ge> lastTrigger + \<Sum>k=0..c-2. min
  MAX_FBA_TIMEOUT_SECONDS (2 ^ k)\<close>. The source computes the timeouts with
  \<^verbatim>\<open>(int)pow(2.0, i)\<close>, which overflows from \<open>i = 31\<close> on; the sum then wraps around.
  With the last trigger at \<open>2 ^ 32\<close> seconds and the clock 5800 seconds later, the ballot
  with counter 33 passes the check, and \<^verbatim>\<open>validateBallot\<close> accepts it, while the
  expected timeouts up to \<open>c - 2 = 31\<close> add up to 6015 seconds, more than the 5860 the
  bound allows.
\<close>
theorem counterGrowthCheck_passes_counter_33:
  "unat (counter far_ballot) = 33 \<and>
   pointToTimeT far_app (mLastTrigger far_herder) = 4294967296 \<and>
   pointToTimeT far_app (clock_now far_app) = 4294973096 \<and>
   MAX_TIME_SLIP_SECONDS (constants far_app) = 60 \<and>
   MAX_FBA_TIMEOUT_SECONDS (constants far_app) = 240 \<and>
   counterGrowthCheck far_app far_herder far_ballot \<and>
   validateBallot far_app 6 2 far_ballot 0 far_herder = Inr ([Callback 0 True], far_herder) \<and>
   (\<Sum>k<unat (counter far_ballot) - 1.
      min (MAX_FBA_TIMEOUT_SECONDS (constants far_app)) (2 ^ k)) = 6015 \<and>
   \<not> ((4294967296 :: uint64) + word_of_int 6015 \<le> 4294973096 + word_of_int 60) \<and>
   \<not> ((4294967296 :: int) + 6015 \<le> 4294973096 + 60)"
proof -
  have c: "unat (counter far_ballot) = 33"
    by (simp add: far_ballot_def)
  have t: "pointToTimeT far_app (mLastTrigger far_herder) = 4294967296"
    "pointToTimeT far_app (clock_now far_app) = 4294973096"
    "MAX_TIME_SLIP_SECONDS (constants far_app) = 60"
    "MAX_FBA_TIMEOUT_SECONDS (constants far_app) = 240"
    by (simp_all add: far_app_def far_herder_def test_app_def test_consts_def test_herder_def)
  have v: "validateBallot far_app 6 2 far_ballot 0 far_herder =
             Inr ([Callback 0 True], far_herder)"
    using far_counterGrowthCheck
    by (simp add: validateBallot_def isKing_def isTrusted_def far_app_def far_ballot_def
        test_app_def test_crypto_def test_decode_def test_consts_def)
  have s: "(\<Sum>k<unat (counter far_ballot) - 1.
      min (MAX_FBA_TIMEOUT_SECONDS (constants far_app)) (2 ^ k)) = 6015"
    using expected_timeouts_32 by (simp add: c t)
  have w: "\<not> ((4294967296 :: uint64) + word_of_int 6015 \<le> 4294973096 + word_of_int 60)"
    by simp
  from c t far_counterGrowthCheck v s w show ?thesis by simp
qed

subsection \<open>C4: envelopes of future slots\<close>

text \<open>
  C4, as amended. When fully synced, an envelope whose slot is above
  \<open>lastClosedLedger.ledgerSeq + 1\<close> and inside the validity bracket is stashed in
  \<^verbatim>\<open>mFutureEnvelopes\<close> for later replay and is also forwarded to the FBA engine's
  \<^verbatim>\<open>receiveEnvelope\<close> at reception time: after the stash the function falls through
  to the call that ends it.
\<close>
theorem recvFBAEnvelope_future_stashed_and_forwarded:
  assumes "mLedgersToWaitToParticipate h = 0"
    and "minLedgerSeq app h = Inr lo"
    and "\<not> (slotIndex (statement envelope) > maxLedgerSeq app h \<or>
             slotIndex (statement envelope) < lo)"
    and "slotIndex (statement envelope) > ledgerSeq (mLastClosedLedger h) + 1"
  shows "recvFBAEnvelope app envelope cb h =
         Inr ([ReceiveEnvelope envelope cb],
              h\<lparr>mFutureEnvelopes :=
                  (mFutureEnvelopes h)
                    (slotIndex (statement envelope) :=
                       mFutureEnvelopes h (slotIndex (statement envelope)) @ [(envelope, cb)])\<rparr>)"
  using assms by (simp add: recvFBAEnvelope_def Let_def)

theorem recvFBAEnvelope_future_stashed_and_forwarded_witness:
  "mLedgersToWaitToParticipate test_herder = 0 \<and>
   minLedgerSeq test_app test_herder = Inr 0 \<and>
   maxLedgerSeq test_app test_herder = 15 \<and>
   ledgerSeq (mLastClosedLedger test_herder) + 1 = 6 \<and>
   slotIndex (statement test_envelope) = 7 \<and>
   recvFBAEnvelope test_app test_envelope 0 test_herder =
     Inr ([ReceiveEnvelope test_envelope 0],
          test_herder\<lparr>mFutureEnvelopes :=
             (mFutureEnvelopes test_herder)(7 := [(test_envelope, 0)])\<rparr>)"
proof -
  have a: "mLedgersToWaitToParticipate test_herder = 0"
    by (simp add: test_herder_def)
  have b: "minLedgerSeq test_app test_herder = Inr 0"
    by (simp add: minLedgerSeq_def test_app_def test_consts_def test_herder_def)
  have m: "maxLedgerSeq test_app test_herder = 15"
    by (simp add: maxLedgerSeq_def test_app_def test_consts_def test_herder_def)
  have s: "slotIndex (statement test_envelope) = 7"
    by (simp add: test_envelope_def)
  have l: "ledgerSeq (mLastClosedLedger test_herder) + 1 = 6"
    by (simp add: test_herder_def)
  have c: "\<not> (slotIndex (statement test_envelope) > maxLedgerSeq test_app test_herder \<or>
             slotIndex (statement test_envelope) < 0)"
    by (simp add: m s)
  have d: "slotIndex (statement test_envelope) > ledgerSeq (mLastClosedLedger test_herder) + 1"
    by (simp add: l s)
  have e: "mFutureEnvelopes test_herder 7 = []"
    by (simp add: test_herder_def)
  from recvFBAEnvelope_future_stashed_and_forwarded [OF a b c d, of 0] a b m s l e
  show ?thesis by simp
qed

text \<open>
  C4 as stated fails: with ledger 5 closed and the Herder fully synced, the envelope for
  slot 7 is stashed, and \<^verbatim>\<open>receiveEnvelope\<close> is called with it in the same call.
\<close>
theorem recvFBAEnvelope_future_not_forwarded_counterexample:
  "mLedgersToWaitToParticipate test_herder = 0 \<and>
   ledgerSeq (mLastClosedLedger test_herder) = 5 \<and>
   slotIndex (statement test_envelope) = 7 \<and>
   recvFBAEnvelope test_app test_envelope 0 test_herder =
     Inr ([ReceiveEnvelope test_envelope 0],
          test_herder\<lparr>mFutureEnvelopes :=
             (mFutureEnvelopes test_herder)(7 := [(test_envelope, 0)])\<rparr>)"
  by (simp add: recvFBAEnvelope_def minLedgerSeq_def maxLedgerSeq_def test_app_def
      test_consts_def test_herder_def test_envelope_def)

subsection \<open>C5: a cancelled deferred-acceptance timer\<close>

lemma pushTimer_lookup: "\<exists>ts. map_of (pushTimer k t m) k = Some (ts @ [t])"
  by (induction m) (auto split: if_splits)

lemma timersOf_registered:
  "timersOf (h\<lparr>mBallotValidationTimers := (ballot, m) # rest\<rparr>) ballot = m"
  by (simp add: timersOf_def)

lemma timersOf_erased:
  "timersOf (h\<lparr>mBallotValidationTimers :=
       filter (\<lambda>e. fst e \<noteq> ballot) (mBallotValidationTimers h)\<rparr>) ballot = []"
proof -
  have "map_of (filter (\<lambda>e. fst e \<noteq> ballot) xs) ballot = None"
    for xs :: "(FBABallot \<times> (uint256 \<times> VirtualTimer list) list) list"
    by (induction xs) auto
  then show ?thesis by (simp add: timersOf_def)
qed

lemma cancelTimers_member:
  "t \<in> set ts \<Longrightarrow> e \<in> set (handler t operation_aborted) \<Longrightarrow> e \<in> set (cancelTimers ts)"
  by (auto simp: cancelTimers_def)

lemma ledgerClosed_events:
  "fst (ledgerClosed app ledger h) =
     cancelTimers (concat (map snd (concat (map snd (mBallotValidationTimers h)))))"
  by (simp add: ledgerClosed_def Let_def)

lemma validateBallot_defers:
  "validateBallot test_app 6 2 deferred_ballot 0 test_herder = Inr ([], deferred_herder)"
  by (simp add: validateBallot_def test_app_def test_crypto_def test_decode_def test_consts_def
     counterGrowthCheck_def isKing_def isTrusted_def test_herder_def deferred_ballot_def
     deferred_herder_def deferBallot_def timersOf_def sumTimeoutsLoop.simps Let_def)

lemma deferBallot_defers:
  "deferBallot test_app 2 deferred_ballot 0 test_herder = Inr ([], deferred_herder)"
  by (simp add: test_app_def test_herder_def deferred_ballot_def
     deferred_herder_def deferBallot_def timersOf_def Let_def)

text \<open>
  C5, as amended. The handler of a deferred ballot-acceptance timer ignores its error
  code: run with the operation-aborted error of a cancellation it invokes \<open>cb(true)\<close>,
  exactly as on expiry. For every ballot that \<^verbatim>\<open>validateBallot\<close> defers, either the
  timer is stored under the ballot and the asking node with that handler, and a later
  \<^verbatim>\<open>ledgerClosed\<close>, which clears the timer map, fires \<open>cb(true)\<close>; or the asking nodes
  are v-blocking, the ballot's entry is erased at once and \<open>cb(true)\<close> is fired then.
\<close>
theorem deferred_timer_cancelled_calls_cb:
  assumes "deferBallot app node ballot cb h = Inr (evs, h')"
  shows "(\<forall>error. ballotTimerHandler cb error = [Callback cb True]) \<and>
         ((\<exists>ts t. map_of (timersOf h' ballot) node = Some (ts @ [t]) \<and>
                  handler t = ballotTimerHandler cb \<and>
                  handler t operation_aborted = [Callback cb True] \<and>
                  Callback cb True \<in> set (fst (ledgerClosed app' ledger h'))) \<or>
          (timersOf h' ballot = [] \<and> Callback cb True \<in> set evs))"
proof -
  define t where "t = \<lparr>expires_from_now = 500 * 2 ^ unat (counter ballot),
                        handler = ballotTimerHandler cb\<rparr>"
  define m where "m = pushTimer node t (timersOf h ballot)"
  obtain ts where ts: "map_of m node = Some (ts @ [t])"
    unfolding m_def using pushTimer_lookup by blast
  then have mem: "(node, ts @ [t]) \<in> set m"
    by (rule map_of_SomeD)
  have ht: "handler t operation_aborted = [Callback cb True]"
    by (simp add: t_def ballotTimerHandler_def)
  from mem have tin: "t \<in> set (concat (map snd m))"
    by force
  show ?thesis
  proof (cases "isVBlocking app (map fst m)")
    case True
    with assms have evs: "evs = cancelTimers (concat (map snd m))"
      and h': "h' = h\<lparr>mBallotValidationTimers :=
                 filter (\<lambda>e. fst e \<noteq> ballot) (mBallotValidationTimers h)\<rparr>"
      by (auto simp: deferBallot_def Let_def m_def t_def split: if_splits)
    from cancelTimers_member [OF tin, of "Callback cb True"] ht evs
    have "Callback cb True \<in> set evs" by simp
    with h' timersOf_erased show ?thesis
      by (simp add: ballotTimerHandler_def)
  next
    case False
    with assms have h': "h' = h\<lparr>mBallotValidationTimers :=
                 (ballot, m) # filter (\<lambda>e. fst e \<noteq> ballot) (mBallotValidationTimers h)\<rparr>"
      by (auto simp: deferBallot_def Let_def m_def t_def split: if_splits)
    then have reg: "timersOf h' ballot = m"
      by (simp add: timersOf_registered)
    from h' tin have "t \<in> set (concat (map snd (concat (map snd (mBallotValidationTimers h')))))"
      by simp
    from cancelTimers_member [OF this, of "Callback cb True"] ht
    have "Callback cb True \<in> set (fst (ledgerClosed app' ledger h'))"
      by (simp add: ledgerClosed_events)
    with reg ts ht show ?thesis
      by (auto simp: ballotTimerHandler_def t_def)
  qed
qed

theorem deferred_timer_cancelled_calls_cb_witness:
  "deferBallot test_app 2 deferred_ballot 0 test_herder = Inr ([], deferred_herder) \<and>
   ballotTimerHandler 0 operation_aborted = [Callback 0 True] \<and>
   (\<exists>ts t. map_of (timersOf deferred_herder deferred_ballot) 2 = Some (ts @ [t]) \<and>
       handler t operation_aborted = [Callback 0 True]) \<and>
   Callback 0 True \<in> set (fst (ledgerClosed test_app \<lparr>ledgerSeq = 6, hash = 0, lh_closeTime = 1\<rparr>
       deferred_herder))"
proof -
  have reg: "timersOf deferred_herder deferred_ballot \<noteq> []"
    by (simp add: timersOf_def deferred_herder_def)
  from deferred_timer_cancelled_calls_cb [OF deferBallot_defers, of test_app
      "\<lparr>ledgerSeq = 6, hash = 0, lh_closeTime = 1\<rparr>"] reg deferBallot_defers
  show ?thesis by auto
qed

text \<open>
  C5 as stated fails: node 2 asks to validate the ballot of node 1, which is not king,
  and a timer is stored; its handler, run with the operation-aborted error, invokes
  \<open>cb(true)\<close>, and so does \<^verbatim>\<open>ledgerClosed\<close> when it clears the timer map.
\<close>
theorem cancelled_timer_silent_counterexample:
  "validateBallot test_app 6 2 deferred_ballot 0 test_herder = Inr ([], deferred_herder) \<and>
   mBallotValidationTimers deferred_herder =
     [(deferred_ballot, [(2, [\<lparr>expires_from_now = 500, handler = ballotTimerHandler 0\<rparr>])])] \<and>
   ballotTimerHandler 0 operation_aborted = [Callback 0 True] \<and>
   fst (ledgerClosed test_app \<lparr>ledgerSeq = 6, hash = 0, lh_closeTime = 1\<rparr> deferred_herder) =
     [Callback 0 True]"
  by (simp add: validateBallot_defers ledgerClosed_events cancelTimers_def deferred_herder_def
      ballotTimerHandler_def)

subsection \<open>C9: the count of ledgers to wait\<close>

lemma ledgerClosed_wait_counter:
  "mLedgersToWaitToParticipate (snd (ledgerClosed app ledger h)) =
     (if mLedgersToWaitToParticipate h > 0 \<and> getState app \<noteq> SYNCED_STATE
      then mLedgersToWaitToParticipate h - 1
      else mLedgersToWaitToParticipate h)"
  by (simp add: ledgerClosed_def Let_def)

text \<open>
  C9. The claim: \<^verbatim>\<open>ledgerClosed\<close> decrements \<^verbatim>\<open>mLedgersToWaitToParticipate\<close>
  exactly when it is positive and the application is in synced state. The source tests
  \<^verbatim>\<open>getState() != SYNCED_STATE\<close>: with the counter at 3, a synced application leaves
  it at 3, and one that is catching up takes it to 2.
\<close>
theorem ledgerClosed_wait_counter_synced:
  "getState test_app = SYNCED_STATE \<and>
   mLedgersToWaitToParticipate
     (snd (ledgerClosed test_app \<lparr>ledgerSeq = 6, hash = 0, lh_closeTime = 1\<rparr>
             (test_herder\<lparr>mLedgersToWaitToParticipate := 3\<rparr>))) = 3 \<and>
   mLedgersToWaitToParticipate
     (snd (ledgerClosed (test_app\<lparr>getState := CATCHING_UP_STATE\<rparr>)
             \<lparr>ledgerSeq = 6, hash = 0, lh_closeTime = 1\<rparr>
             (test_herder\<lparr>mLedgersToWaitToParticipate := 3\<rparr>))) = 2"
  by (simp add: ledgerClosed_def test_app_def test_herder_def cancelTimers_def Let_def)

subsection \<open>Externalisation: what the two claims share\<close>

lemma rotateLoop_length [simp]: "length (rotateLoop m rt) = length rt"
  by (induction m arbitrary: rt) simp_all

lemma rotateLoop_nth:
  "m < length rt \<Longrightarrow> j < length rt \<Longrightarrow>
   rotateLoop m rt ! j =
     (if m = 0 then rt ! j
      else if j = 0 then []
      else if j < m then rt ! (j - 1)
      else if j = m then rt ! m @ rt ! (m - 1)
      else rt ! j)"
proof (induction m arbitrary: rt j)
  case 0
  then show ?case by simp
next
  case (Suc m)
  let ?rt = "rt[Suc m := rt ! Suc m @ rt ! m, m := []]"
  from Suc.prems have "m < length ?rt" "j < length ?rt" by simp_all
  from Suc.IH [OF this] Suc.prems show ?case
    by (auto simp: nth_list_update less_Suc_eq)
qed
lemma broadcasts_Nil [simp]: "broadcasts [] = []"
  by (simp add: broadcasts_def)

lemma broadcasts_Cons [simp]:
  "broadcasts (e # evs) =
     (case e of BroadcastTransaction tx \<Rightarrow> [tx] | _ \<Rightarrow> []) @ broadcasts evs"
  by (simp add: broadcasts_def)

lemma broadcasts_append [simp]: "broadcasts (xs @ ys) = broadcasts xs @ broadcasts ys"
  by (simp add: broadcasts_def)

lemma broadcasts_map [simp]: "broadcasts (map BroadcastTransaction txs) = txs"
  by (induction txs) simp_all

lemma broadcasts_evictNodes [simp]: "broadcasts (evictNodes app h) = []"
  by (induction "mNodeLastAccess h" arbitrary: h) (simp_all add: evictNodes_def broadcasts_def)

lemma fetchItem_events: "fetchItem f hsh False = (r, evs) \<Longrightarrow> evs = []"
  by (auto simp: fetchItem_def split: option.splits)

lemma fetchTxSet_events: "fetchTxSet h hsh False = Inr (r, evs) \<Longrightarrow> evs = []"
  by (auto simp: fetchTxSet_def split: if_splits dest: fetchItem_events)

lemma fetchTxSet_bumpTimer [simp]:
  "fetchTxSet (h\<lparr>mBumpTimer := x\<rparr>) hsh ask = fetchTxSet h hsh ask"
  by (simp add: fetchTxSet_def)

lemma broadcasts_decode [simp]: "broadcasts (snd (decodeExternalized app v)) = []"
  by (simp add: decodeExternalized_def split: option.splits)

lemma valueExternalized_resolved:
  assumes fetch: "fetchTxSet h (txSetHash (ballotValue (fst (decodeExternalized app v)))) False =
                    Inr (Some externalizedSet, evs1)"
    and res: "valueExternalized app slot v h = Inr (evs, h')"
  shows "2 \<le> length (fold removeReceivedTx (mTransactions externalizedSet) (mReceivedTransactions h)) \<and>
         broadcasts evs =
           fold removeReceivedTx (mTransactions externalizedSet) (mReceivedTransactions h) ! 1 \<and>
         mReceivedTransactions h' =
           rotateLoop (length (fold removeReceivedTx (mTransactions externalizedSet)
                                 (mReceivedTransactions h)) - 1)
             (fold removeReceivedTx (mTransactions externalizedSet) (mReceivedTransactions h))"
proof -
  obtain b evs0 where d: "decodeExternalized app v = (b, evs0)"
    by (cases "decodeExternalized app v")
  have e0: "broadcasts evs0 = []"
    using broadcasts_decode [of app v] d by simp
  from fetch d have f: "fetchTxSet h (txSetHash (ballotValue b)) False = Inr (Some externalizedSet, evs1)"
    by simp
  from fetchTxSet_events [OF f] have e1: "evs1 = []" .
  from res d f e0 e1 show ?thesis
    by (auto simp: valueExternalized_def Let_def split: if_splits)
qed

lemma test_tx_hashes:
  "getFullHash (test_tx 0) = 0" "getFullHash (test_tx 1) = 1"
  "getFullHash (test_tx 2) = 2" "getFullHash (test_tx 3) = 3"
  by (simp_all add: test_tx_def)

lemma pool_removal:
  "fold removeReceivedTx (mTransactions test_txSet) (mReceivedTransactions pool_herder) =
     [[], [test_tx 1], [test_tx 2], [test_tx 3]]"
  by (simp add: test_txSet_def pool_herder_def test_tx_hashes)

lemma pool_fetch:
  "fetchTxSet pool_herder (txSetHash (ballotValue (fst (decodeExternalized test_app [1, 1, 10]))))
     False = Inr (Some test_txSet, [])"
  by (simp add: fetchTxSet_def fetchItem_def decodeExternalized_def pool_herder_def
      test_herder_def test_app_def test_crypto_def test_decode_def)

lemma valueExternalized_example:
  "valueExternalized test_app 6 [1, 1, 10] pool_herder =
     Inr ([StopFetchingAll 0, ExternalizeValue test_txSet, BroadcastTransaction (test_tx 1)],
          externalized_herder)"
proof -
  have d: "decodeExternalized test_app [1, 1, 10] =
      (\<lparr>nodeID = 1, signature = 1,
        ballotValue = \<lparr>txSetHash = 0, closeTime = 0, baseFee = 10\<rparr>\<rparr>, [])"
    by (simp add: decodeExternalized_def test_app_def test_crypto_def test_decode_def)
  have f: "fetchTxSet pool_herder 0 False = Inr (Some test_txSet, [])"
    by (simp add: fetchTxSet_def fetchItem_def pool_herder_def test_herder_def)
  have e: "evictNodes test_app (pool_herder\<lparr>mBumpTimer := None\<rparr>) = []"
    by (simp add: evictNodes_def pool_herder_def test_herder_def)
  have c: "mCurrentTxSetFetcher pool_herder = 0" "length (mTxSetFetcher pool_herder) = 2"
    "LEDGER_VALIDITY_BRACKET (constants test_app) = 10"
    by (simp_all add: pool_herder_def test_herder_def test_app_def test_consts_def)
  have r: "pool_herder\<lparr>mBumpTimer := None, mCurrentTxSetFetcher := 1,
             mTxSetFetcher := (mTxSetFetcher pool_herder)[1 := []],
             mReceivedTransactions := [[], [], [test_tx 1], [test_tx 3, test_tx 2]]\<rparr> =
           externalized_herder"
    by (simp add: pool_herder_def externalized_herder_def test_herder_def)
  have step: "valueExternalized test_app 6 [1, 1, 10] pool_herder =
     Inr ([StopFetchingAll 0, ExternalizeValue test_txSet, BroadcastTransaction (test_tx 1)],
          pool_herder\<lparr>mBumpTimer := None, mCurrentTxSetFetcher := 1,
             mTxSetFetcher := (mTxSetFetcher pool_herder)[1 := []],
             mReceivedTransactions := [[], [], [test_tx 1], [test_tx 3, test_tx 2]]\<rparr>)"
    by (simp add: valueExternalized_def d f e c pool_removal)
  show ?thesis
    by (simp only: step r)
qed

subsection \<open>C6: the bucket that is rebroadcast\<close>

text \<open>
  C6, as amended. When the externalised transaction set is resolved locally, the
  transactions rebroadcast to the overlay are exactly the contents of bucket 1 of
  \<^verbatim>\<open>mReceivedTransactions\<close> (not of the oldest bucket, index 3), as that bucket is
  after the externalised transactions have been removed and before the rotation.
\<close>
theorem valueExternalized_rebroadcast:
  assumes "fetchTxSet h (txSetHash (ballotValue (fst (decodeExternalized app v)))) False =
             Inr (Some externalizedSet, evs1)"
    and "valueExternalized app slot v h = Inr (evs, h')"
  shows "2 \<le> length (fold removeReceivedTx (mTransactions externalizedSet)
                       (mReceivedTransactions h)) \<and>
         broadcasts evs =
           fold removeReceivedTx (mTransactions externalizedSet) (mReceivedTransactions h) ! 1"
  using valueExternalized_resolved [OF assms] by simp

theorem valueExternalized_rebroadcast_witness:
  "fetchTxSet pool_herder (txSetHash (ballotValue (fst (decodeExternalized test_app [1, 1, 10]))))
     False = Inr (Some test_txSet, []) \<and>
   valueExternalized test_app 6 [1, 1, 10] pool_herder =
     Inr ([StopFetchingAll 0, ExternalizeValue test_txSet, BroadcastTransaction (test_tx 1)],
          externalized_herder) \<and>
   broadcasts [StopFetchingAll 0, ExternalizeValue test_txSet, BroadcastTransaction (test_tx 1)] =
     [[], [test_tx 1], [test_tx 2], [test_tx 3]] ! 1"
  using valueExternalized_rebroadcast [OF pool_fetch valueExternalized_example]
    pool_fetch valueExternalized_example
  by (simp add: pool_removal)

text \<open>
  C6 as stated fails: with one transaction in each bucket, transaction 1 of bucket 1 is
  rebroadcast, and transaction 3 of the oldest bucket is not.
\<close>
theorem rebroadcast_oldest_bucket_counterexample:
  "mReceivedTransactions pool_herder = [[test_tx 0], [test_tx 1], [test_tx 2], [test_tx 3]] \<and>
   valueExternalized test_app 6 [1, 1, 10] pool_herder =
     Inr ([StopFetchingAll 0, ExternalizeValue test_txSet, BroadcastTransaction (test_tx 1)],
          externalized_herder) \<and>
   fold removeReceivedTx (mTransactions test_txSet) (mReceivedTransactions pool_herder) ! 3 =
     [test_tx 3] \<and>
   test_tx 1 \<noteq> test_tx 3"
  by (simp add: valueExternalized_example pool_removal)
     (simp add: pool_herder_def test_tx_def)

subsection \<open>C7: the rotation of the buckets\<close>

text \<open>
  C7, as amended. After the rotation inside \<^verbatim>\<open>valueExternalized\<close> (resolved
  transaction set), with \<open>rt\<close> the buckets before the rotation and \<open>N\<close> their number:
  bucket 0 is empty, each bucket \<open>n\<close> with \<open>0 < n < N - 1\<close> holds exactly what bucket
  \<open>n - 1\<close> held, and the oldest bucket \<open>N - 1\<close> holds what it held followed by what
  bucket \<open>N - 2\<close> held: nothing is discarded from the pool.
\<close>
theorem valueExternalized_rotation:
  assumes "fetchTxSet h (txSetHash (ballotValue (fst (decodeExternalized app v)))) False =
             Inr (Some externalizedSet, evs1)"
    and "valueExternalized app slot v h = Inr (evs, h')"
    and "rt = fold removeReceivedTx (mTransactions externalizedSet) (mReceivedTransactions h)"
  shows "length (mReceivedTransactions h') = length rt \<and> 2 \<le> length rt \<and>
         mReceivedTransactions h' ! 0 = [] \<and>
         (\<forall>n. 0 < n \<and> n < length rt - 1 \<longrightarrow> mReceivedTransactions h' ! n = rt ! (n - 1)) \<and>
         mReceivedTransactions h' ! (length rt - 1) =
           rt ! (length rt - 1) @ rt ! (length rt - 2)"
proof -
  from valueExternalized_resolved [OF assms(1,2)] assms(3)
  have len: "2 \<le> length rt"
    and pool: "mReceivedTransactions h' = rotateLoop (length rt - 1) rt"
    by simp_all
  from len have m: "length rt - 1 < length rt" "length rt - 1 \<noteq> 0" by simp_all
  have nth: "rotateLoop (length rt - 1) rt ! j =
      (if j = 0 then []
       else if j < length rt - 1 then rt ! (j - 1)
       else if j = length rt - 1 then rt ! (length rt - 1) @ rt ! (length rt - 1 - 1)
       else rt ! j)" if "j < length rt" for j
    using rotateLoop_nth [OF m(1) that] m(2) by simp
  from len have pos: "0 < length rt" by linarith
  have a: "rotateLoop (length rt - 1) rt ! 0 = []"
    using nth [OF pos] by simp
  have b: "rotateLoop (length rt - 1) rt ! n = rt ! (n - 1)" if "0 < n" "n < length rt - 1" for n
    using nth [of n] that by simp
  have c: "rotateLoop (length rt - 1) rt ! (length rt - 1) =
             rt ! (length rt - 1) @ rt ! (length rt - 2)"
  proof -
    have "length rt - 1 - 1 = length rt - 2" by simp
    with nth [OF m(1)] m(2) show ?thesis by simp
  qed
  from a b c len show ?thesis
    by (simp add: pool)
qed

theorem valueExternalized_rotation_witness:
  "fetchTxSet pool_herder (txSetHash (ballotValue (fst (decodeExternalized test_app [1, 1, 10]))))
     False = Inr (Some test_txSet, []) \<and>
   valueExternalized test_app 6 [1, 1, 10] pool_herder =
     Inr ([StopFetchingAll 0, ExternalizeValue test_txSet, BroadcastTransaction (test_tx 1)],
          externalized_herder) \<and>
   fold removeReceivedTx (mTransactions test_txSet) (mReceivedTransactions pool_herder) =
     [[], [test_tx 1], [test_tx 2], [test_tx 3]] \<and>
   mReceivedTransactions externalized_herder ! 0 = [] \<and>
   mReceivedTransactions externalized_herder ! 1 = [] \<and>
   mReceivedTransactions externalized_herder ! 2 = [test_tx 1] \<and>
   mReceivedTransactions externalized_herder ! 3 = [test_tx 3] @ [test_tx 2]"
  using valueExternalized_rotation [OF pool_fetch valueExternalized_example pool_removal [symmetric]]
    pool_fetch valueExternalized_example pool_removal
  by (simp add: externalized_herder_def)

text \<open>
  C7 as stated fails: before the rotation the buckets hold nothing, transaction 1,
  transaction 2 and transaction 3; after it the oldest bucket holds transactions 3 and
  2, so it is not exactly the former bucket 2 and transaction 3 has not been discarded.
\<close>
theorem rotation_discards_oldest_counterexample:
  "fold removeReceivedTx (mTransactions test_txSet) (mReceivedTransactions pool_herder) =
     [[], [test_tx 1], [test_tx 2], [test_tx 3]] \<and>
   valueExternalized test_app 6 [1, 1, 10] pool_herder =
     Inr ([StopFetchingAll 0, ExternalizeValue test_txSet, BroadcastTransaction (test_tx 1)],
          externalized_herder) \<and>
   mReceivedTransactions externalized_herder = [[], [], [test_tx 1], [test_tx 3, test_tx 2]] \<and>
   [test_tx 3, test_tx 2] \<noteq> [test_tx 2]"
  by (simp add: valueExternalized_example pool_removal)
     (simp add: externalized_herder_def)

subsection \<open>C10: \<open>recvTransaction\<close> changes the pool only on success\<close>

lemma recvTransaction_first:
  "recvTransaction test_app (test_tx 1) test_herder = Inr (True, one_tx_herder)"
  by (simp add: recvTransaction_def test_app_def test_herder_def one_tx_herder_def)

lemma recvTransaction_second:
  "recvTransaction test_app (test_tx 1) one_tx_herder = Inr (False, one_tx_herder)"
  by (simp add: recvTransaction_def test_app_def test_herder_def one_tx_herder_def)


text \<open>
  C10. Whenever \<^verbatim>\<open>recvTransaction\<close> returns false the Herder, and so every bucket of
  \<^verbatim>\<open>mReceivedTransactions\<close>, is exactly as before the call; whenever it returns true
  the only change is that the transaction is appended to bucket 0. With at least one
  bucket, as the constructor makes four, the call always returns.
\<close>
theorem recvTransaction_atomic:
  "(recvTransaction app tx h = Inr (False, h') \<longrightarrow> h' = h) \<and>
   (recvTransaction app tx h = Inr (True, h') \<longrightarrow>
      mReceivedTransactions h \<noteq> [] \<and>
      h' = h\<lparr>mReceivedTransactions :=
              (mReceivedTransactions h)[0 := mReceivedTransactions h ! 0 @ [tx]]\<rparr>) \<and>
   (mReceivedTransactions h \<noteq> [] \<longrightarrow> (\<exists>r h'. recvTransaction app tx h = Inr (r, h')))"
  by (auto simp: recvTransaction_def split: option.splits if_splits list.splits)

theorem recvTransaction_atomic_witness:
  "recvTransaction test_app (test_tx 1) test_herder = Inr (True, one_tx_herder) \<and>
   mReceivedTransactions test_herder = [[], [], [], []] \<and>
   one_tx_herder = test_herder\<lparr>mReceivedTransactions := [[test_tx 1], [], [], []]\<rparr> \<and>
   recvTransaction test_app (test_tx 1) one_tx_herder = Inr (False, one_tx_herder)"
proof -
  have p: "mReceivedTransactions test_herder = [[], [], [], []]"
    by (simp add: test_herder_def)
  from recvTransaction_atomic [of test_app "test_tx 1" test_herder one_tx_herder]
    recvTransaction_first p
  have "one_tx_herder = test_herder\<lparr>mReceivedTransactions := [[test_tx 1], [], [], []]\<rparr>"
    by simp
  with recvTransaction_first recvTransaction_second p show ?thesis by simp
qed

end
